theory Spec2Isabelle
  imports Main "HOL-Library.Word"
begin

section \<open>JavaScript values as the page script sees them\<close>

text \<open>
  The publications feed is what \<^verbatim>\<open>response.json()\<close> returns: a JSON value. Reading a
  property that an object does not have gives \<^verbatim>\<open>undefined\<close>, so \<open>JUndefined\<close> belongs to
  the value type although no JSON text denotes it. An object is the list of its members
  in the order of the JSON text; of two members with one key the later one counts.

  A JavaScript string is a sequence of code units. The type \<open>char\<close> covers the code
  units 0 to 255; they include every character that the functions below single out
  (ampersand, angle brackets, quotes, carriage return, line feed, the null character,
  the no-break space U+00A0). A number is an integer from -2^53 to 2^53 - 1: these
  are the integers that a JavaScript number holds exactly and prints in decimal with
  all their digits. They are the values of a signed word of 54 bits, read with \<open>sint\<close>;
  the model does no arithmetic on them.
\<close>

datatype json =
    JUndefined
  | JNull
  | JBool bool
  | JNum "54 word"
  | JStr string
  | JArr "json list"
  | JObj "(string \<times> json) list"

datatype error = NetworkError | HttpError | SyntaxError | TypeError

definition and_then :: "error + 'a \<Rightarrow> ('a \<Rightarrow> error + 'b) \<Rightarrow> error + 'b" where
  "and_then r f = (case r of Inl e \<Rightarrow> Inl e | Inr x \<Rightarrow> f x)"

text \<open>The test \<^verbatim>\<open>if (!text)\<close>, \<^verbatim>\<open>paper.doi ? .. : ..\<close> and \<^verbatim>\<open>a || b\<close>: JavaScript's ToBoolean.\<close>

fun truthy :: "json \<Rightarrow> bool" where
  "truthy JUndefined = False"
| "truthy JNull = False"
| "truthy (JBool b) = b"
| "truthy (JNum n) = (n \<noteq> 0)"
| "truthy (JStr s) = (s \<noteq> [])"
| "truthy (JArr xs) = True"
| "truthy (JObj kvs) = True"

definition digit_char :: "nat \<Rightarrow> char" where
  "digit_char d = ''0123456789'' ! d"

function nat_digits :: "nat \<Rightarrow> string" where
  "nat_digits n = (if n < 10 then [digit_char n] else nat_digits (n div 10) @ [digit_char (n mod 10)])"
  by pat_completeness auto
termination
  by (relation "measure id") auto

declare nat_digits.simps [simp del]

definition int_digits :: "int \<Rightarrow> string" where
  "int_digits i = (if i < 0 then CHR ''-'' # nat_digits (nat (- i)) else nat_digits (nat i))"

fun join_comma :: "string list \<Rightarrow> string" where
  "join_comma [] = []"
| "join_comma [s] = s"
| "join_comma (s # t # ss) = s @ '','' @ join_comma (t # ss)"

text \<open>The results of a list of conversions, or the first exception among them.\<close>

fun collect :: "(error + 'a) list \<Rightarrow> error + 'a list" where
  "collect [] = Inr []"
| "collect (r # rs) =
     (case r of
        Inl e \<Rightarrow> Inl e
      | Inr x \<Rightarrow> (case collect rs of Inl e \<Rightarrow> Inl e | Inr xs \<Rightarrow> Inr (x # xs)))"

text \<open>
  JavaScript's conversion of a value to a string, which string concatenation with
  \<^verbatim>\<open>+\<close> and the assignment to \<^verbatim>\<open>textContent\<close> apply to a value that is not a string.
  An array prints its elements separated by commas, with nothing for \<^verbatim>\<open>null\<close> and
  \<^verbatim>\<open>undefined\<close>. An object is converted by its \<^verbatim>\<open>toString\<close> method: the inherited one
  gives \<^verbatim>\<open>[object Object]\<close>; a member of that name, which in a JSON value is never a
  function, hides the inherited method, and then neither \<^verbatim>\<open>toString\<close> nor \<^verbatim>\<open>valueOf\<close>
  gives a primitive value and the conversion throws a TypeError.
\<close>

fun ToString :: "json \<Rightarrow> error + string" where
  "ToString JUndefined = Inr ''undefined''"
| "ToString JNull = Inr ''null''"
| "ToString (JBool b) = Inr (if b then ''true'' else ''false'')"
| "ToString (JNum n) = Inr (int_digits (sint n))"
| "ToString (JStr s) = Inr s"
| "ToString (JArr xs) =
     and_then
       (collect (map (\<lambda>x. if x = JUndefined \<or> x = JNull then Inr [] else ToString x) xs))
       (\<lambda>ss. Inr (join_comma ss))"
| "ToString (JObj kvs) =
     (if ''toString'' \<in> fst ` set kvs then Inl TypeError else Inr ''[object Object]'')"

text \<open>
  Reading a property of \<^verbatim>\<open>null\<close> or \<^verbatim>\<open>undefined\<close> throws a TypeError; every other value
  can be asked for a property. The script reads the properties \<^verbatim>\<open>citingPapers\<close>,
  \<^verbatim>\<open>title\<close>, \<^verbatim>\<open>authors\<close>, \<^verbatim>\<open>journal\<close>, \<^verbatim>\<open>year\<close>, \<^verbatim>\<open>doi\<close> and \<^verbatim>\<open>url\<close>: none of them is
  built into strings, numbers, booleans or arrays, so only an object can have one.
\<close>

fun has_properties :: "json \<Rightarrow> bool" where
  "has_properties JUndefined = False"
| "has_properties JNull = False"
| "has_properties v = True"

fun property :: "json \<Rightarrow> string \<Rightarrow> json" where
  "property (JObj kvs) k = (case map_of (rev kvs) k of None \<Rightarrow> JUndefined | Some v \<Rightarrow> v)"
| "property v k = JUndefined"

fun has_field :: "json \<Rightarrow> string \<Rightarrow> bool" where
  "has_field (JObj kvs) k = (map_of (rev kvs) k \<noteq> None)"
| "has_field v k = False"

section \<open>escapeHtml\<close>

text \<open>
  \<^verbatim>\<open>div.textContent = text; return div.innerHTML\<close> converts the value to a string and
  serialises one text node. The HTML fragment serialisation algorithm writes a text
  node with the ampersand, the no-break space and the two angle brackets replaced by
  character references, and nothing else changed (quotes are replaced in attribute
  values only, not in text).
\<close>

definition escape_char :: "char \<Rightarrow> string" where
  "escape_char c =
     (if c = CHR ''&'' then ''&amp;''
      else if c = CHR 0xA0 then ''&nbsp;''
      else if c = CHR ''<'' then ''&lt;''
      else if c = CHR ''>'' then ''&gt;''
      else [c])"

definition serialize_text :: "string \<Rightarrow> string" where
  "serialize_text s = concat (map escape_char s)"

definition escapeHtml :: "json \<Rightarrow> error + string" where
  "escapeHtml text =
     (if \<not> truthy text then Inr []
      else and_then (ToString text) (\<lambda>s. Inr (serialize_text s)))"

section \<open>createPublicationCard\<close>

text \<open>
  \<^verbatim>\<open>doiUrl\<close> (line 162). The concatenation converts a truthy \<^verbatim>\<open>doi\<close> to a string, which
  can throw.
\<close>

definition doiUrl :: "json \<Rightarrow> error + json" where
  "doiUrl paper =
     (if truthy (property paper ''doi'')
      then and_then (ToString (property paper ''doi'')) (\<lambda>s. Inr (JStr (''https://doi.org/'' @ s)))
      else Inr (if truthy (property paper ''url'') then property paper ''url'' else JStr ''#''))"

text \<open>
  The card is one string literal continued over several source lines: a backslash at
  the end of a line continues the literal and contributes no character, so the
  indentation of each line is part of the markup and no line break is. The two
  templates below are the literal with its holes: \<open>link_markup\<close> is the part that is
  written for a truthy \<^verbatim>\<open>doi\<close>. The delay is a number of the script's own making; an
  array has fewer than 2^32 elements, so it is an integer that prints in decimal.
\<close>

definition link_markup :: "string \<Rightarrow> string \<Rightarrow> string" where
  \<open>link_markup url doi_text =
     ''<a href="'' @ url @
     ''" class="doi-link" target="_blank" rel="noopener">                <svg xmlns="http://www.w3.org/2000/svg" viewBox="0 0 24 24" fill="none" stroke="currentColor" stroke-width="2" width="14" height="14">                    <path d="M18 13v6a2 2 0 0 1-2 2H5a2 2 0 0 1-2-2V8a2 2 0 0 1 2-2h6"/>                    <polyline points="15 3 21 3 21 9"/>                    <line x1="10" y1="14" x2="21" y2="3"/>                </svg>                DOI: '' @
     doi_text @
     ''            </a>''\<close>

definition card_markup :: "nat \<Rightarrow> string \<Rightarrow> string \<Rightarrow> string \<Rightarrow> string \<Rightarrow> string \<Rightarrow> string" where
  \<open>card_markup index title authors journal year link =
     ''        <article class="publication-card" data-aos="fade-up" data-aos-delay="'' @
     nat_digits (100 + index * 100) @
     ''">            <h4>'' @ title @
     ''</h4>            <p class="authors">'' @ authors @
     ''</p>            <p class="venue">'' @ journal @
     '', '' @ year @
     ''</p>            '' @ link @
     ''        </article>    ''\<close>

text \<open>
  The link (lines 169 to 176): nothing for a falsy \<^verbatim>\<open>doi\<close>; otherwise \<^verbatim>\<open>doiUrl\<close>, as it
  is, inside the \<^verbatim>\<open>href\<close>, and the escaped \<^verbatim>\<open>doi\<close> as the text.
\<close>

definition doi_link :: "json \<Rightarrow> json \<Rightarrow> error + string" where
  "doi_link paper url =
     (if truthy (property paper ''doi'')
      then and_then (ToString url) (\<lambda>u.
           and_then (escapeHtml (property paper ''doi'')) (\<lambda>d.
           Inr (link_markup u d)))
      else Inr [])"

text \<open>
  The function throws a TypeError when \<^verbatim>\<open>paper\<close> is \<^verbatim>\<open>null\<close> or \<^verbatim>\<open>undefined\<close> and when
  the conversion of a field to a string throws; the operands are evaluated from left
  to right, and every exception here is a TypeError.
\<close>

definition createPublicationCard :: "json \<Rightarrow> nat \<Rightarrow> error + string" where
  "createPublicationCard paper index =
     (if \<not> has_properties paper then Inl TypeError
      else and_then (doiUrl paper) (\<lambda>url.
           and_then (escapeHtml (property paper ''title'')) (\<lambda>title.
           and_then (escapeHtml (property paper ''authors'')) (\<lambda>authors.
           and_then (escapeHtml (property paper ''journal'')) (\<lambda>journal.
           and_then (escapeHtml (property paper ''year'')) (\<lambda>year.
           and_then (doi_link paper url) (\<lambda>link.
           Inr (card_markup index title authors journal year link))))))))"

section \<open>The markup as the browser reads it\<close>

text \<open>
  Assigning to \<^verbatim>\<open>innerHTML\<close> hands the string to the HTML parser. Before the
  tokenizer runs, every carriage return and line feed pair and every other carriage
  return becomes one line feed. The tokenizer then decides what is an element and
  what is text. The states below are those of the HTML standard's tokenizer that tags
  and attributes go through; a markup declaration, a comment and a processing
  instruction are all read as a bogus comment, which ends at the next closing angle
  bracket. A character token and an attribute value hold the characters as they are
  written in the markup; \<open>resolve\<close> below gives what they stand for. The switch to
  raw text that the tree builder makes after the start tags of \<^verbatim>\<open>script\<close>, \<^verbatim>\<open>style\<close>,
  \<^verbatim>\<open>title\<close> and \<^verbatim>\<open>textarea\<close> is not modelled; the card template has none of them.
\<close>

fun normalize_newlines :: "string \<Rightarrow> string" where
  "normalize_newlines [] = []"
| "normalize_newlines (c # cs) =
     (if c = CHR 0x0D
      then (case cs of
              [] \<Rightarrow> [CHR 0x0A]
            | d # ds \<Rightarrow> if d = CHR 0x0A then normalize_newlines cs else CHR 0x0A # normalize_newlines cs)
      else c # normalize_newlines cs)"

datatype token =
    Character char
  | StartTag string "(string \<times> string) list"
  | EndTag string

datatype tstate =
    Data | TagOpen | EndTagOpen | TagName
  | BeforeAttrName | AttrName | AfterAttrName
  | BeforeAttrValue | AttrValueDQ | AttrValueSQ | AttrValueUQ | AfterAttrValueQ
  | SelfClosingStartTag | BogusComment

text \<open>
  \<open>attrs\<close> holds the attributes of the tag being read, the newest first: its head is
  the attribute whose name or value is being read. A step consumes one character and
  gives the tokenizer after it and the tokens that the character completes.
\<close>

record tokenizer =
  state :: tstate
  end_tag :: bool
  tag_name :: string
  attrs :: "(string \<times> string) list"

definition is_space :: "char \<Rightarrow> bool" where
  "is_space c = (c = CHR 0x09 \<or> c = CHR 0x0A \<or> c = CHR 0x0C \<or> c = CHR '' '')"

definition is_upper :: "char \<Rightarrow> bool" where
  "is_upper c = (65 \<le> (of_char c :: nat) \<and> (of_char c :: nat) \<le> 90)"

definition is_alpha :: "char \<Rightarrow> bool" where
  "is_alpha c = (is_upper c \<or> (97 \<le> (of_char c :: nat) \<and> (of_char c :: nat) \<le> 122))"

text \<open>
  Tag and attribute names are read in lower case: 32 is added to the code of an upper
  case ASCII letter, which sets the bit of value 32 that no such letter has.
\<close>

definition lower :: "char \<Rightarrow> char" where
  "lower c =
     (if is_upper c
      then (case c of Char b0 b1 b2 b3 b4 b5 b6 b7 \<Rightarrow> Char b0 b1 b2 b3 b4 True b6 b7)
      else c)"

text \<open>
  An attribute whose name the tag already has is dropped. The list comes newest first
  and leaves in the order of the markup.
\<close>

fun commit :: "(string \<times> string) list \<Rightarrow> (string \<times> string) list" where
  "commit [] = []"
| "commit ((k, v) # older) =
     (if k \<in> fst ` set older then commit older else commit older @ [(k, v)])"

definition goto :: "tstate \<Rightarrow> tokenizer \<Rightarrow> tokenizer \<times> token list" where
  "goto st t = (t\<lparr>state := st\<rparr>, [])"

definition emit_tag :: "tokenizer \<Rightarrow> tokenizer \<times> token list" where
  "emit_tag t =
     (t\<lparr>state := Data\<rparr>,
      [if end_tag t then EndTag (tag_name t) else StartTag (tag_name t) (commit (attrs t))])"

definition start_attr :: "tokenizer \<Rightarrow> tokenizer" where
  "start_attr t = t\<lparr>attrs := ([], []) # attrs t\<rparr>"

definition add_name :: "char \<Rightarrow> tokenizer \<Rightarrow> tokenizer \<times> token list" where
  "add_name c t =
     (t\<lparr>state := AttrName,
        attrs := (case attrs t of [] \<Rightarrow> [([lower c], [])] | (k, v) # r \<Rightarrow> (k @ [lower c], v) # r)\<rparr>,
      [])"

definition add_value :: "char \<Rightarrow> tokenizer \<Rightarrow> tokenizer \<times> token list" where
  "add_value c t =
     (t\<lparr>attrs := (case attrs t of [] \<Rightarrow> [([], [c])] | (k, v) # r \<Rightarrow> (k, v @ [c]) # r)\<rparr>, [])"

definition new_tag :: "bool \<Rightarrow> tokenizer \<Rightarrow> tokenizer" where
  "new_tag e t = t\<lparr>state := TagName, end_tag := e, tag_name := [], attrs := []\<rparr>"

definition data_step :: "tokenizer \<Rightarrow> char \<Rightarrow> tokenizer \<times> token list" where
  "data_step t c = (if c = CHR ''<'' then goto TagOpen t else (t\<lparr>state := Data\<rparr>, [Character c]))"

definition tag_name_step :: "tokenizer \<Rightarrow> char \<Rightarrow> tokenizer \<times> token list" where
  "tag_name_step t c =
     (if is_space c then goto BeforeAttrName t
      else if c = CHR ''/'' then goto SelfClosingStartTag t
      else if c = CHR ''>'' then emit_tag t
      else (t\<lparr>tag_name := tag_name t @ [lower c]\<rparr>, []))"

definition tag_open_step :: "tokenizer \<Rightarrow> char \<Rightarrow> tokenizer \<times> token list" where
  "tag_open_step t c =
     (if c = CHR ''!'' \<or> c = CHR ''?'' then goto BogusComment t
      else if c = CHR ''/'' then goto EndTagOpen t
      else if is_alpha c then tag_name_step (new_tag False t) c
      else (case data_step t c of (t', out) \<Rightarrow> (t', Character CHR ''<'' # out)))"

definition end_tag_open_step :: "tokenizer \<Rightarrow> char \<Rightarrow> tokenizer \<times> token list" where
  "end_tag_open_step t c =
     (if is_alpha c then tag_name_step (new_tag True t) c
      else if c = CHR ''>'' then goto Data t
      else goto BogusComment t)"

definition after_attr_name_step :: "tokenizer \<Rightarrow> char \<Rightarrow> tokenizer \<times> token list" where
  "after_attr_name_step t c =
     (if is_space c then goto AfterAttrName t
      else if c = CHR ''/'' then goto SelfClosingStartTag t
      else if c = CHR ''='' then goto BeforeAttrValue t
      else if c = CHR ''>'' then emit_tag t
      else add_name c (start_attr t))"

definition attr_name_step :: "tokenizer \<Rightarrow> char \<Rightarrow> tokenizer \<times> token list" where
  "attr_name_step t c =
     (if is_space c \<or> c = CHR ''/'' \<or> c = CHR ''>'' then after_attr_name_step t c
      else if c = CHR ''='' then goto BeforeAttrValue t
      else add_name c t)"

definition before_attr_name_step :: "tokenizer \<Rightarrow> char \<Rightarrow> tokenizer \<times> token list" where
  "before_attr_name_step t c =
     (if is_space c then goto BeforeAttrName t
      else if c = CHR ''/'' \<or> c = CHR ''>'' then after_attr_name_step t c
      else add_name c (start_attr t))"

definition before_attr_value_step :: "tokenizer \<Rightarrow> char \<Rightarrow> tokenizer \<times> token list" where
  "before_attr_value_step t c =
     (if is_space c then (t, [])
      else if c = CHR 0x22 then goto AttrValueDQ t
      else if c = CHR 0x27 then goto AttrValueSQ t
      else if c = CHR ''>'' then emit_tag t
      else add_value c (t\<lparr>state := AttrValueUQ\<rparr>))"

definition attr_value_uq_step :: "tokenizer \<Rightarrow> char \<Rightarrow> tokenizer \<times> token list" where
  "attr_value_uq_step t c =
     (if is_space c then goto BeforeAttrName t
      else if c = CHR ''>'' then emit_tag t
      else add_value c t)"

definition self_closing_step :: "tokenizer \<Rightarrow> char \<Rightarrow> tokenizer \<times> token list" where
  "self_closing_step t c = (if c = CHR ''>'' then emit_tag t else before_attr_name_step t c)"

definition after_attr_value_q_step :: "tokenizer \<Rightarrow> char \<Rightarrow> tokenizer \<times> token list" where
  "after_attr_value_q_step t c =
     (if is_space c then goto BeforeAttrName t
      else if c = CHR ''/'' then goto SelfClosingStartTag t
      else if c = CHR ''>'' then emit_tag t
      else before_attr_name_step t c)"

definition step :: "tokenizer \<Rightarrow> char \<Rightarrow> tokenizer \<times> token list" where
  "step t c =
     (case state t of
        Data \<Rightarrow> data_step t c
      | TagOpen \<Rightarrow> tag_open_step t c
      | EndTagOpen \<Rightarrow> end_tag_open_step t c
      | TagName \<Rightarrow> tag_name_step t c
      | BeforeAttrName \<Rightarrow> before_attr_name_step t c
      | AttrName \<Rightarrow> attr_name_step t c
      | AfterAttrName \<Rightarrow> after_attr_name_step t c
      | BeforeAttrValue \<Rightarrow> before_attr_value_step t c
      | AttrValueDQ \<Rightarrow> (if c = CHR 0x22 then goto AfterAttrValueQ t else add_value c t)
      | AttrValueSQ \<Rightarrow> (if c = CHR 0x27 then goto AfterAttrValueQ t else add_value c t)
      | AttrValueUQ \<Rightarrow> attr_value_uq_step t c
      | AfterAttrValueQ \<Rightarrow> after_attr_value_q_step t c
      | SelfClosingStartTag \<Rightarrow> self_closing_step t c
      | BogusComment \<Rightarrow> (if c = CHR ''>'' then goto Data t else (t, [])))"

definition initial :: tokenizer where
  "initial = \<lparr>state = Data, end_tag = False, tag_name = [], attrs = []\<rparr>"

text \<open>
  At the end of the input an unfinished tag is dropped, and the characters that opened
  a tag without a name are text after all.
\<close>

definition at_eof :: "tokenizer \<Rightarrow> token list" where
  "at_eof t =
     (case state t of
        TagOpen \<Rightarrow> [Character CHR ''<'']
      | EndTagOpen \<Rightarrow> [Character CHR ''<'', Character CHR ''/'']
      | _ \<Rightarrow> [])"

fun tokens :: "tokenizer \<Rightarrow> string \<Rightarrow> token list" where
  "tokens t [] = at_eof t"
| "tokens t (c # cs) = snd (step t c) @ tokens (fst (step t c)) cs"

definition tokenize :: "string \<Rightarrow> token list" where
  "tokenize html = tokens initial (normalize_newlines html)"

text \<open>
  What a run of written characters (an attribute value, or the text between two tags)
  stands for. An ampersand followed by a letter, a digit or a number sign starts a
  character reference. The five references below, written with their semicolon, are
  resolved; an ampersand before any other character is an ampersand. For every other
  reference, and for a run that holds the null character (which the parser replaces
  or drops), the result is \<open>None\<close>: the model does not say what the run stands for.
\<close>

definition is_alnum :: "char \<Rightarrow> bool" where
  "is_alnum c = (is_alpha c \<or> (48 \<le> (of_char c :: nat) \<and> (of_char c :: nat) \<le> 57))"

fun resolve :: "string \<Rightarrow> string option" where
  "resolve [] = Some []"
| "resolve (c # cs) =
     (if c = CHR 0x00 then None
      else if c \<noteq> CHR ''&'' then map_option (\<lambda>r. c # r) (resolve cs)
      else if take 4 cs = ''amp;'' then map_option (\<lambda>r. CHR ''&'' # r) (resolve (drop 4 cs))
      else if take 3 cs = ''lt;'' then map_option (\<lambda>r. CHR ''<'' # r) (resolve (drop 3 cs))
      else if take 3 cs = ''gt;'' then map_option (\<lambda>r. CHR ''>'' # r) (resolve (drop 3 cs))
      else if take 5 cs = ''quot;'' then map_option (\<lambda>r. CHR 0x22 # r) (resolve (drop 5 cs))
      else if take 5 cs = ''nbsp;'' then map_option (\<lambda>r. CHR 0xA0 # r) (resolve (drop 5 cs))
      else if cs \<noteq> [] \<and> (is_alnum (hd cs) \<or> hd cs = CHR ''#'') then None
      else map_option (\<lambda>r. c # r) (resolve cs))"

text \<open>
  The link elements of a piece of markup, each with its target: the value of its
  \<^verbatim>\<open>href\<close> attribute, with the character references resolved.
\<close>

datatype link = NoTarget | Target string | TargetNotModelled string

definition link_of :: "(string \<times> string) list \<Rightarrow> link" where
  "link_of as =
     (case map_of as ''href'' of
        None \<Rightarrow> NoTarget
      | Some written \<Rightarrow>
          (case resolve written of None \<Rightarrow> TargetNotModelled written | Some t \<Rightarrow> Target t))"

fun link_target :: "token \<Rightarrow> link list" where
  "link_target (StartTag n as) = (if n = ''a'' then [link_of as] else [])"
| "link_target t = []"

definition links :: "string \<Rightarrow> link list" where
  "links html = concat (map link_target (tokenize html))"

text \<open>The elements of a piece of markup by their names, and the cards among them.\<close>

fun start_tag_name :: "token \<Rightarrow> string list" where
  "start_tag_name (StartTag n as) = [n]"
| "start_tag_name t = []"

definition elements :: "string \<Rightarrow> string list" where
  "elements html = concat (map start_tag_name (tokenize html))"

definition articles :: "string \<Rightarrow> string list" where
  "articles html = filter (\<lambda>n. n = ''article'') (elements html)"

section \<open>loadPublications\<close>

text \<open>
  The two regions of the page that the routine touches, each absent when
  \<^verbatim>\<open>getElementById\<close> finds nothing, and what the routine does to its environment: the
  requests it issues, the errors it writes to the console, and the calls of
  \<^verbatim>\<open>AOS.refresh\<close> when the animation library is loaded.
\<close>

record element =
  display :: string
  innerHTML :: string

record page =
  container :: "element option"
  noPublicationsMsg :: "element option"
  requests :: "string list"
  console :: "error list"
  aos :: bool
  aos_refreshes :: nat

text \<open>
  How the awaited fetch settles: the promise rejects (a network failure), or it gives a
  response with its \<^verbatim>\<open>ok\<close> flag, whose body parses as JSON or does not. A fetch that never
  settles never resumes the routine and is not an outcome.
\<close>

datatype body = Malformed | Parsed json

datatype fetch_outcome = Rejected | Response bool body

definition set_display :: "string \<Rightarrow> element option \<Rightarrow> element option" where
  "set_display d e = map_option (\<lambda>x. x\<lparr>display := d\<rparr>) e"

definition set_innerHTML :: "string \<Rightarrow> element option \<Rightarrow> element option" where
  "set_innerHTML h e = map_option (\<lambda>x. x\<lparr>innerHTML := h\<rparr>) e"

text \<open>
  Lines 122 to 125 and lines 150 to 153 are the same two statements: the message, when
  the page has one, is displayed as a block, and the container is not displayed.
\<close>

definition show_no_publications :: "page \<Rightarrow> page" where
  "show_no_publications p =
     p\<lparr>noPublicationsMsg := set_display ''block'' (noPublicationsMsg p),
       container := set_display ''none'' (container p)\<rparr>"

definition show_grid :: "page \<Rightarrow> page" where
  "show_grid p =
     p\<lparr>noPublicationsMsg := set_display ''none'' (noPublicationsMsg p),
       container := set_display ''grid'' (container p)\<rparr>"

definition refresh_aos :: "page \<Rightarrow> page" where
  "refresh_aos p = (if aos p then p\<lparr>aos_refreshes := Suc (aos_refreshes p)\<rparr> else p)"

text \<open>
  \<^verbatim>\<open>citingPapers.length === 0\<close>, asked of a truthy value: an array or a string has
  length 0 when it is empty, an object when it has a member of that name that is the
  number 0, and numbers and booleans have no length.
\<close>

fun length_is_zero :: "json \<Rightarrow> bool" where
  "length_is_zero (JArr xs) = (xs = [])"
| "length_is_zero (JStr s) = (s = [])"
| "length_is_zero (JObj kvs) = (property (JObj kvs) ''length'' = JNum 0)"
| "length_is_zero v = False"

text \<open>
  \<^verbatim>\<open>citingPapers.map(function(paper, index) { return createPublicationCard(paper, index); })\<close>:
  the cards of the records from position \<open>index\<close> on, or the first exception.
\<close>

fun render_cards :: "json list \<Rightarrow> nat \<Rightarrow> error + string list" where
  "render_cards [] index = Inr []"
| "render_cards (paper # papers) index =
     (case createPublicationCard paper index of
        Inl e \<Rightarrow> Inl e
      | Inr markup \<Rightarrow>
          (case render_cards papers (Suc index) of
             Inl e \<Rightarrow> Inl e
           | Inr cards \<Rightarrow> Inr (markup # cards)))"

text \<open>
  The body of the \<^verbatim>\<open>try\<close>: the page as the statements executed so far have left it,
  and the exception if one was thrown. \<^verbatim>\<open>map\<close> is a method of arrays only, so calling it
  on any other value is a TypeError, thrown after the grid has been switched on.
\<close>

definition try_block :: "fetch_outcome \<Rightarrow> page \<Rightarrow> page \<times> error option" where
  "try_block outcome p =
     (case outcome of
        Rejected \<Rightarrow> (p, Some NetworkError)
      | Response ok b \<Rightarrow>
          if \<not> ok then (p, Some HttpError)
          else (case b of
             Malformed \<Rightarrow> (p, Some SyntaxError)
           | Parsed data \<Rightarrow>
               if \<not> has_properties data then (p, Some TypeError)
               else
                 let citingPapers =
                       (if truthy (property data ''citingPapers'')
                        then property data ''citingPapers'' else JArr [])
                 in if length_is_zero citingPapers then (show_no_publications p, None)
                    else (case citingPapers of
                       JArr papers \<Rightarrow>
                         (case render_cards papers 0 of
                            Inl e \<Rightarrow> (show_grid p, Some e)
                          | Inr cards \<Rightarrow>
                              (refresh_aos ((show_grid p)
                                 \<lparr>container := set_innerHTML (concat cards) (container (show_grid p))\<rparr>),
                               None))
                     | _ \<Rightarrow> (show_grid p, Some TypeError))))"

definition loadPublications :: "fetch_outcome \<Rightarrow> page \<Rightarrow> page" where
  "loadPublications outcome p =
     (case container p of
        None \<Rightarrow> p
      | Some c \<Rightarrow>
          (case try_block outcome (p\<lparr>requests := requests p @ [''data/publications.json'']\<rparr>) of
             (p', None) \<Rightarrow> p'
           | (p', Some e) \<Rightarrow> show_no_publications (p'\<lparr>console := console p' @ [e]\<rparr>)))"


definition empty_state :: "page \<Rightarrow> bool" where
  "empty_state p =
     (map_option display (container p) = Some ''none'' \<and>
      map_option display (noPublicationsMsg p) = Some ''block'')"

text \<open>
  The outcomes that the feed renderer treats as "no publications": a failed fetch (the
  promise rejects, the status is not a success, the body does not parse), a response
  object without the list field, and an empty list.
\<close>

fun no_feed :: "fetch_outcome \<Rightarrow> bool" where
  "no_feed Rejected = True"
| "no_feed (Response ok Malformed) = True"
| "no_feed (Response ok (Parsed (JObj kvs))) =
     (\<not> ok \<or> \<not> has_field (JObj kvs) ''citingPapers'' \<or> property (JObj kvs) ''citingPapers'' = JArr [])"
| "no_feed (Response ok (Parsed v)) = (\<not> ok)"

section \<open>copyToClipboard and showToast\<close>

text \<open>
  The children of the document body, each with an identity: a node that
  \<^verbatim>\<open>createElement\<close> returns is a node that neither the document nor a timer holds yet.
  What lies deeper in the page than a child of the body is not modelled.
  The script schedules three timers for each toast; \<open>timers\<close> keeps the delay and the
  toast of the two that \<^verbatim>\<open>showToast\<close> itself sets.
\<close>

datatype node = Node (node_id: nat) (tag: string) (classes: "string list") (content: string)

record document =
  children :: "node list"
  timers :: "(nat \<times> nat) list"
  clipboard :: string

datatype dom_error = NotFoundError

definition fresh_id :: "document \<Rightarrow> nat" where
  "fresh_id d = Suc (fold max (map node_id (children d) @ map snd (timers d)) 0)"

definition createElement :: "string \<Rightarrow> document \<Rightarrow> node" where
  "createElement t d = Node (fresh_id d) t [] []"

definition appendChild :: "node \<Rightarrow> document \<Rightarrow> document" where
  "appendChild n d = d\<lparr>children := children d @ [n]\<rparr>"

text \<open>\<^verbatim>\<open>removeChild\<close> throws when the node is not a child of the body.\<close>

definition removeChild :: "node \<Rightarrow> document \<Rightarrow> dom_error + document" where
  "removeChild n d =
     (if node_id n \<in> set (map node_id (children d))
      then Inr (d\<lparr>children := filter (\<lambda>m. node_id m \<noteq> node_id n) (children d)\<rparr>)
      else Inl NotFoundError)"

definition is_toast :: "node \<Rightarrow> bool" where
  "is_toast n = (''toast'' \<in> set (classes n))"

text \<open>\<^verbatim>\<open>document.querySelector('.toast')\<close> followed by \<^verbatim>\<open>remove()\<close>: the first toast goes.\<close>

fun remove_existing_toast :: "node list \<Rightarrow> node list" where
  "remove_existing_toast [] = []"
| "remove_existing_toast (n # ns) = (if is_toast n then ns else n # remove_existing_toast ns)"

definition showToast :: "string \<Rightarrow> document \<Rightarrow> document" where
  "showToast message d =
     (let d1 = d\<lparr>children := remove_existing_toast (children d)\<rparr>;
          toast = Node (node_id (createElement ''div'' d1)) ''div'' [''toast''] message;
          d2 = appendChild toast d1
      in d2\<lparr>timers := timers d2 @ [(10, node_id toast), (3000, node_id toast)]\<rparr>)"

text \<open>
  What the environment does with the two copy attempts: \<^verbatim>\<open>navigator.clipboard.writeText\<close>
  resolves, or the attempt fails (the promise rejects, or there is no
  \<^verbatim>\<open>navigator.clipboard\<close> and reading \<^verbatim>\<open>writeText\<close> throws); \<^verbatim>\<open>document.execCommand('copy')\<close>
  returns its boolean result, which the script discards, or throws.
\<close>

datatype write_outcome = Written | WriteFails

datatype exec_outcome = ExecReturns bool | ExecThrows

text \<open>
  The result is the document when the promise of \<^verbatim>\<open>copyToClipboard\<close> is fulfilled, and the
  exception when it is rejected: nothing outside the inner \<^verbatim>\<open>try\<close> is caught.
\<close>

definition copyToClipboard ::
    "string \<Rightarrow> write_outcome \<Rightarrow> exec_outcome \<Rightarrow> document \<Rightarrow> dom_error + document" where
  "copyToClipboard citation w e d =
     (case w of
        Written \<Rightarrow> Inr (showToast ''Citation copied to clipboard!'' (d\<lparr>clipboard := citation\<rparr>))
      | WriteFails \<Rightarrow>
          let textArea = Node (node_id (createElement ''textarea'' d)) ''textarea'' [] citation;
              d1 = appendChild textArea d;
              d2 = (case e of
                      ExecReturns copied \<Rightarrow>
                        showToast ''Citation copied to clipboard!''
                          (if copied then d1\<lparr>clipboard := citation\<rparr> else d1)
                    | ExecThrows \<Rightarrow> showToast ''Failed to copy citation'' d1)
          in removeChild textArea d2)"

definition notifications :: "document \<Rightarrow> string list" where
  "notifications d = map content (filter is_toast (children d))"

definition text_fields :: "document \<Rightarrow> node list" where
  "text_fields d = filter (\<lambda>n. tag n = ''textarea'') (children d)"

section \<open>initHeaderScroll\<close>

text \<open>
  The closure of \<^verbatim>\<open>initHeaderScroll\<close> (\<open>lastScrollY\<close>, \<open>ticking\<close>, the header element,
  which is absent when the page has no element with that id, and otherwise has the
  class \<^verbatim>\<open>scrolled\<close> or not), the scroll position of the window, the number of
  \<^verbatim>\<open>updateHeader\<close> callbacks that wait for the next animation frame, and a log: how
  often \<^verbatim>\<open>updateHeader\<close> was started in each animation frame so far.
\<close>

record scroller =
  scrollY :: int
  lastScrollY :: int
  ticking :: bool
  header :: "bool option"
  frame_requests :: nat
  frames :: "nat list"

datatype event = Scroll int | AnimationFrame

text \<open>
  \<^verbatim>\<open>header.classList\<close> throws when there is no header, and the callback ends there,
  before it clears the flag.
\<close>

definition updateHeader :: "scroller \<Rightarrow> scroller" where
  "updateHeader s =
     (case header s of
        None \<Rightarrow> s
      | Some scrolled \<Rightarrow> s\<lparr>header := Some (scrollY s > 100), ticking := False\<rparr>)"

definition on_scroll :: "scroller \<Rightarrow> scroller" where
  "on_scroll s =
     (let s1 = s\<lparr>lastScrollY := scrollY s\<rparr>
      in if \<not> ticking s1 then s1\<lparr>frame_requests := Suc (frame_requests s1), ticking := True\<rparr>
         else s1)"

text \<open>
  A scroll event arrives after the window has moved. An animation frame runs the
  callbacks requested before it, each once.
\<close>

fun handle :: "scroller \<Rightarrow> event \<Rightarrow> scroller" where
  "handle s (Scroll y) = on_scroll (s\<lparr>scrollY := y\<rparr>)"
| "handle s AnimationFrame =
     ((updateHeader ^^ frame_requests s) (s\<lparr>frame_requests := 0\<rparr>))
       \<lparr>frames := frames s @ [frame_requests s]\<rparr>"

definition initHeaderScroll :: "bool option \<Rightarrow> int \<Rightarrow> scroller" where
  "initHeaderScroll h y =
     \<lparr>scrollY = y, lastScrollY = 0, ticking = False, header = h, frame_requests = 0, frames = []\<rparr>"

definition run :: "scroller \<Rightarrow> event list \<Rightarrow> scroller" where
  "run s es = foldl handle s es"

text \<open>
  The invariant of the closure and the frame queue: at most one callback waits, one
  waits only while the flag is set, and no frame so far has started more than one.
\<close>

definition coalesced :: "scroller \<Rightarrow> bool" where
  "coalesced s =
     (frame_requests s \<le> 1 \<and> (frame_requests s = 1 \<longrightarrow> ticking s) \<and>
      list_all (\<lambda>n. n \<le> 1) (frames s))"

section \<open>Properties of the card markup\<close>

lemma property_no_field: "\<not> has_field paper k \<Longrightarrow> property paper k = JUndefined"
  by (cases paper) auto

lemma and_then_Inr: "and_then r f = Inr y \<longleftrightarrow> (\<exists>x. r = Inr x \<and> f x = Inr y)"
  by (cases r) (simp_all add: and_then_def)

lemma normalize_no_cr: "CHR 0x0D \<notin> set s \<Longrightarrow> normalize_newlines s = s"
  by (induction s) auto

lemma normalize_append:
  "r \<noteq> CHR 0x0A \<Longrightarrow>
   normalize_newlines (s @ r # rs) = normalize_newlines s @ normalize_newlines (r # rs)"
proof (induction s rule: normalize_newlines.induct)
  case 1
  then show ?case by simp
next
  case (2 c cs)
  then show ?case by (cases cs) auto
qed

lemma normalize_mem: "x \<in> set (normalize_newlines s) \<Longrightarrow> x = CHR 0x0A \<or> x \<in> set s"
proof (induction s rule: normalize_newlines.induct)
  case 1
  then show ?case by simp
next
  case (2 c cs)
  show ?case
  proof (cases "c = CHR 0x0D")
    case False
    with 2 show ?thesis by auto
  next
    case True
    show ?thesis
    proof (cases cs)
      case Nil
      with True 2 show ?thesis by simp
    next
      case (Cons d ds)
      show ?thesis
      proof (cases "d = CHR 0x0A")
        case T: True
        from 2(4) True Cons T have "x \<in> set (normalize_newlines cs)" by simp
        with 2(1)[OF True Cons T] show ?thesis by auto
      next
        case F: False
        from 2(4) True Cons F have "x = CHR 0x0A \<or> x \<in> set (normalize_newlines cs)" by simp
        with 2(2)[OF True Cons F] show ?thesis by auto
      qed
    qed
  qed
qed

lemma normalize_no_lt: "CHR ''<'' \<notin> set s \<Longrightarrow> CHR ''<'' \<notin> set (normalize_newlines s)"
  using normalize_mem[of "CHR ''<''" s] by auto

lemma normalize_no_quote: "CHR 0x22 \<notin> set s \<Longrightarrow> CHR 0x22 \<notin> set (normalize_newlines s)"
  using normalize_mem[of "CHR 0x22" s] by auto

lemma data_tokens:
  "state t = Data \<Longrightarrow> CHR ''<'' \<notin> set s \<Longrightarrow>
   tokens t (s @ rest) = map Character s @ tokens t rest"
proof (induction s)
  case Nil
  then show ?case by simp
next
  case (Cons c cs)
  from Cons.prems have "t\<lparr>state := Data\<rparr> = t" by simp
  with Cons.prems have "step t c = (t, [Character c])"
    by (auto simp: step_def data_step_def)
  with Cons show ?case by simp
qed

lemma dq_tokens:
  "state t = AttrValueDQ \<Longrightarrow> attrs t \<noteq> [] \<Longrightarrow> CHR 0x22 \<notin> set s \<Longrightarrow>
   tokens t (s @ rest) =
     tokens (t\<lparr>attrs := (fst (hd (attrs t)), snd (hd (attrs t)) @ s) # tl (attrs t)\<rparr>) rest"
proof (induction s arbitrary: t)
  case Nil
  then show ?case by simp
next
  case (Cons c cs)
  from Cons.prems obtain k v r where a: "attrs t = (k, v) # r"
    by (cases "attrs t") auto
  from Cons.prems a have st: "step t c = (t\<lparr>attrs := (k, v @ [c]) # r\<rparr>, [])"
    by (auto simp: step_def add_value_def)
  have "state (t\<lparr>attrs := (k, v @ [c]) # r\<rparr>) = AttrValueDQ" "attrs (t\<lparr>attrs := (k, v @ [c]) # r\<rparr>) \<noteq> []"
    using Cons.prems by simp_all
  from Cons.IH[OF this] Cons.prems st a show ?case by simp
qed

lemma escape_char_no_lt: "CHR ''<'' \<notin> set (escape_char c)"
  by (simp add: escape_char_def)

lemma serialize_text_no_lt: "CHR ''<'' \<notin> set (serialize_text s)"
  by (induction s) (simp_all add: serialize_text_def escape_char_no_lt)

lemma escapeHtml_no_lt: "escapeHtml v = Inr t \<Longrightarrow> CHR ''<'' \<notin> set t"
  by (auto simp: escapeHtml_def and_then_Inr serialize_text_no_lt split: if_splits)

lemma digit_char_digit: "d < 10 \<Longrightarrow> digit_char d \<in> set ''0123456789''"
  unfolding digit_char_def by (rule nth_mem) simp

lemma nat_digits_digits: "set (nat_digits n) \<subseteq> set ''0123456789''"
proof (induction n rule: nat_digits.induct)
  case (1 n)
  show ?case
  proof (cases "n < 10")
    case True
    then show ?thesis using digit_char_digit[of n] by (subst nat_digits.simps) simp
  next
    case False
    have "n mod 10 < 10" by simp
    from digit_char_digit[OF this] 1[OF False] False show ?thesis
      by (subst nat_digits.simps) simp
  qed
qed

lemma nat_digits_no_quote: "CHR 0x22 \<notin> set (nat_digits n)"
proof -
  have "CHR 0x22 \<notin> set ''0123456789''" by simp
  then show ?thesis using nat_digits_digits by fastforce
qed

lemma nat_digits_normal: "normalize_newlines (nat_digits n) = nat_digits n"
proof -
  have "CHR 0x0D \<notin> set ''0123456789''" by simp
  then have "CHR 0x0D \<notin> set (nat_digits n)" using nat_digits_digits by fastforce
  then show ?thesis by (rule normalize_no_cr)
qed

lemma resolve_plain: "CHR ''&'' \<notin> set s \<Longrightarrow> CHR 0x00 \<notin> set s \<Longrightarrow> resolve s = Some s"
  by (induction s) auto

lemmas step_defs = step_def data_step_def tag_open_step_def end_tag_open_step_def tag_name_step_def
  before_attr_name_step_def attr_name_step_def after_attr_name_step_def before_attr_value_step_def
  attr_value_uq_step_def after_attr_value_q_step_def self_closing_step_def goto_def
  emit_tag_def start_attr_def add_name_def add_value_def new_tag_def
  is_space_def is_alpha_def is_upper_def lower_def

lemmas card_simps = tokenize_def card_markup_def link_markup_def initial_def at_eof_def step_defs
  normalize_append nat_digits_normal normalize_no_lt normalize_no_quote nat_digits_no_quote
  data_tokens dq_tokens

lemma no_elements_in_text: "concat (map (start_tag_name \<circ> Character) s) = []"
  by (induction s) simp_all

lemma no_links_in_text: "concat (map (link_target \<circ> Character) s) = []"
  by (induction s) simp_all

lemma links_without_link:
  assumes "CHR ''<'' \<notin> set title" "CHR ''<'' \<notin> set authors"
    and "CHR ''<'' \<notin> set journal" "CHR ''<'' \<notin> set year"
  shows "links (card_markup index title authors journal year []) = []"
  using assms by (simp add: links_def card_simps no_links_in_text)

lemma links_with_link:
  assumes "CHR ''<'' \<notin> set title" "CHR ''<'' \<notin> set authors"
    and "CHR ''<'' \<notin> set journal" "CHR ''<'' \<notin> set year"
    and "CHR ''<'' \<notin> set doi_text" "CHR 0x22 \<notin> set url"
  shows "links (card_markup index title authors journal year (link_markup url doi_text)) =
     [link_of [(''href'', normalize_newlines url), (''class'', ''doi-link''),
               (''target'', ''_blank''), (''rel'', ''noopener'')]]"
  using assms by (simp add: links_def card_simps no_links_in_text)

lemma createPublicationCard_Inr:
  assumes "createPublicationCard paper index = Inr markup"
  shows "\<exists>title authors journal year link.
           escapeHtml (property paper ''title'') = Inr title \<and>
           escapeHtml (property paper ''authors'') = Inr authors \<and>
           escapeHtml (property paper ''journal'') = Inr journal \<and>
           escapeHtml (property paper ''year'') = Inr year \<and>
           markup = card_markup index title authors journal year link \<and>
           (if truthy (property paper ''doi'')
            then \<exists>s d. ToString (property paper ''doi'') = Inr s \<and>
                       escapeHtml (property paper ''doi'') = Inr d \<and>
                       link = link_markup (''https://doi.org/'' @ s) d
            else link = [])"
  using assms
  by (auto simp: createPublicationCard_def doiUrl_def doi_link_def and_then_Inr split: if_splits)

lemma elements_without_link:
  assumes "CHR ''<'' \<notin> set title" "CHR ''<'' \<notin> set authors"
    and "CHR ''<'' \<notin> set journal" "CHR ''<'' \<notin> set year"
  shows "elements (card_markup index title authors journal year []) = [''article'', ''h4'', ''p'', ''p'']"
  using assms by (simp add: elements_def card_simps no_elements_in_text)

lemma elements_with_link:
  assumes "CHR ''<'' \<notin> set title" "CHR ''<'' \<notin> set authors"
    and "CHR ''<'' \<notin> set journal" "CHR ''<'' \<notin> set year"
    and "CHR ''<'' \<notin> set doi_text" "CHR 0x22 \<notin> set url"
  shows "elements (card_markup index title authors journal year (link_markup url doi_text)) =
     [''article'', ''h4'', ''p'', ''p'', ''a'', ''svg'', ''path'', ''polyline'', ''line'']"
  using assms by (simp add: elements_def card_simps no_elements_in_text)

lemma one_article_per_card:
  assumes "createPublicationCard paper index = Inr markup"
    and "\<And>s. ToString (property paper ''doi'') = Inr s \<Longrightarrow> CHR 0x22 \<notin> set s"
  shows "articles markup = [''article'']"
proof -
  from createPublicationCard_Inr[OF assms(1)] obtain title authors journal year link where
    t: "escapeHtml (property paper ''title'') = Inr title"
    and a: "escapeHtml (property paper ''authors'') = Inr authors"
    and j: "escapeHtml (property paper ''journal'') = Inr journal"
    and y: "escapeHtml (property paper ''year'') = Inr year"
    and m: "markup = card_markup index title authors journal year link"
    and l: "if truthy (property paper ''doi'')
            then \<exists>s d. ToString (property paper ''doi'') = Inr s \<and>
                       escapeHtml (property paper ''doi'') = Inr d \<and>
                       link = link_markup (''https://doi.org/'' @ s) d
            else link = []"
    by blast
  note lt = escapeHtml_no_lt[OF t] escapeHtml_no_lt[OF a] escapeHtml_no_lt[OF j] escapeHtml_no_lt[OF y]
  show ?thesis
  proof (cases "truthy (property paper ''doi'')")
    case False
    with l m elements_without_link[OF lt] show ?thesis by (simp add: articles_def)
  next
    case True
    with l obtain s d where s: "ToString (property paper ''doi'') = Inr s"
      and d: "escapeHtml (property paper ''doi'') = Inr d"
      and k: "link = link_markup (''https://doi.org/'' @ s) d"
      by auto
    from assms(2)[OF s] have q: "CHR 0x22 \<notin> set (''https://doi.org/'' @ s)" by simp
    from m k elements_with_link[OF lt escapeHtml_no_lt[OF d] q] show ?thesis
      by (simp add: articles_def)
  qed
qed

lemmas eval_card = createPublicationCard_def doiUrl_def doi_link_def escapeHtml_def and_then_def
  serialize_text_def escape_char_def card_markup_def link_markup_def nat_digits.simps digit_char_def
  tokenize_def initial_def at_eof_def step_defs

lemma resolve_serialize_text: "CHR 0x00 \<notin> set s \<Longrightarrow> resolve (serialize_text s) = Some s"
proof (induction s)
  case Nil
  then show ?case by (simp add: serialize_text_def)
next
  case (Cons c cs)
  have "serialize_text (c # cs) = escape_char c @ serialize_text cs"
    by (simp add: serialize_text_def)
  with Cons show ?case by (auto simp: escape_char_def is_alnum_def is_alpha_def is_upper_def)
qed

text \<open>
  C9. \<^verbatim>\<open>escapeHtml\<close> gives the empty string for every falsy value, among them
  \<^verbatim>\<open>undefined\<close>, \<^verbatim>\<open>null\<close>, the empty string and the number 0; so the slot of a field that
  the record does not have is empty and is not the text "undefined". The card of a
  record without any field has an empty heading, an empty authors line, a venue line
  that holds the separating comma alone, and no link.
\<close>

theorem escapeHtml_falsy_empty:
  \<open>(\<not> truthy v \<longrightarrow> escapeHtml v = Inr [])
   \<and> escapeHtml JUndefined = Inr [] \<and> escapeHtml JNull = Inr [] \<and> escapeHtml (JStr []) = Inr []
   \<and> escapeHtml (JNum 0) = Inr [] \<and> escapeHtml JUndefined \<noteq> Inr ''undefined''
   \<and> (\<not> has_field paper k \<longrightarrow> escapeHtml (property paper k) = Inr [])
   \<and> createPublicationCard (JObj []) index = Inr (
        ''        <article class="publication-card" data-aos="fade-up" data-aos-delay="'' @
        nat_digits (100 + index * 100) @
        ''">            <h4></h4>            <p class="authors"></p>            <p class="venue">, </p>                    </article>    '')\<close>
  by (simp add: escapeHtml_def property_no_field createPublicationCard_def doiUrl_def doi_link_def
        and_then_def card_markup_def)

theorem escapeHtml_falsy_empty_witness:
  "escapeHtml (JBool False) = Inr []
   \<and> escapeHtml (property (JObj [(''title'', JStr ''T'')]) ''year'') = Inr []"
proof -
  have h1: "\<not> truthy (JBool False)" by simp
  have h2: "\<not> has_field (JObj [(''title'', JStr ''T'')]) ''year''" by simp
  from escapeHtml_falsy_empty[of "JBool False" "JObj [(''title'', JStr ''T'')]" "''year''" 0] h1 h2
  show ?thesis by blast
qed

text \<open>
  C2, as the code has it. The card has no link element when the \<^verbatim>\<open>doi\<close> of the record
  is falsy (absent, \<^verbatim>\<open>null\<close>, \<^verbatim>\<open>false\<close>, 0 or the empty string), whether or not the record
  has a \<^verbatim>\<open>url\<close>. When the \<^verbatim>\<open>doi\<close> is truthy and, as a string, has no double quote,
  ampersand, carriage return or null character in it, the card has exactly one link
  element, and the target of the link is the resolver prefix followed by the \<^verbatim>\<open>doi\<close>.
\<close>

theorem link_for_truthy_doi:
  assumes "createPublicationCard paper index = Inr markup"
  shows "(\<not> truthy (property paper ''doi'') \<longrightarrow> links markup = [])
       \<and> (truthy (property paper ''doi'') \<and> ToString (property paper ''doi'') = Inr s \<and>
          CHR 0x22 \<notin> set s \<and> CHR ''&'' \<notin> set s \<and> CHR 0x0D \<notin> set s \<and> CHR 0x00 \<notin> set s \<longrightarrow>
            links markup = [Target (''https://doi.org/'' @ s)])"
proof -
  from createPublicationCard_Inr[OF assms] obtain title authors journal year link where
    t: "escapeHtml (property paper ''title'') = Inr title"
    and a: "escapeHtml (property paper ''authors'') = Inr authors"
    and j: "escapeHtml (property paper ''journal'') = Inr journal"
    and y: "escapeHtml (property paper ''year'') = Inr year"
    and m: "markup = card_markup index title authors journal year link"
    and l: "if truthy (property paper ''doi'')
            then \<exists>s d. ToString (property paper ''doi'') = Inr s \<and>
                       escapeHtml (property paper ''doi'') = Inr d \<and>
                       link = link_markup (''https://doi.org/'' @ s) d
            else link = []"
    by blast
  note lt = escapeHtml_no_lt[OF t] escapeHtml_no_lt[OF a] escapeHtml_no_lt[OF j] escapeHtml_no_lt[OF y]
  have falsy: "\<not> truthy (property paper ''doi'') \<longrightarrow> links markup = []"
    using l m links_without_link[OF lt] by simp
  have truthy: "links markup = [Target (''https://doi.org/'' @ s)]"
    if tr: "truthy (property paper ''doi'')" and s: "ToString (property paper ''doi'') = Inr s"
      and q: "CHR 0x22 \<notin> set s" and amp: "CHR ''&'' \<notin> set s"
      and cr: "CHR 0x0D \<notin> set s" and nul: "CHR 0x00 \<notin> set s"
  proof -
    from l tr s obtain d where d: "escapeHtml (property paper ''doi'') = Inr d"
      and k: "link = link_markup (''https://doi.org/'' @ s) d"
      by auto
    from q have q': "CHR 0x22 \<notin> set (''https://doi.org/'' @ s)" by simp
    from cr have n: "normalize_newlines (''https://doi.org/'' @ s) = ''https://doi.org/'' @ s"
      by (intro normalize_no_cr) simp
    from amp nul have r: "resolve (''https://doi.org/'' @ s) = Some (''https://doi.org/'' @ s)"
      by (intro resolve_plain) simp_all
    from links_with_link[OF lt escapeHtml_no_lt[OF d] q', of index] m k n r show ?thesis
      by (simp add: link_of_def)
  qed
  from falsy truthy show ?thesis by blast
qed

theorem link_for_truthy_doi_witness:
  "links (card_markup 0 ''T'' [] [] [] []) = []
   \<and> links (card_markup 1 ''T'' [] [] [] (link_markup ''https://doi.org/10.1000/x'' ''10.1000/x''))
       = [Target ''https://doi.org/10.1000/x'']"
proof -
  let ?a = "JObj [(''title'', JStr ''T''), (''url'', JStr ''https://example.org/p'')]"
  let ?b = "JObj [(''title'', JStr ''T''), (''doi'', JStr ''10.1000/x'')]"
  have ca: "createPublicationCard ?a 0 = Inr (card_markup 0 ''T'' [] [] [] [])"
    by (simp add: createPublicationCard_def doiUrl_def doi_link_def escapeHtml_def and_then_def
          serialize_text_def escape_char_def)
  have cb: "createPublicationCard ?b 1 =
      Inr (card_markup 1 ''T'' [] [] [] (link_markup ''https://doi.org/10.1000/x'' ''10.1000/x''))"
    by (simp add: createPublicationCard_def doiUrl_def doi_link_def escapeHtml_def and_then_def
          serialize_text_def escape_char_def)
  have fa: "\<not> truthy (property ?a ''doi'')" by simp
  have fb: "truthy (property ?b ''doi'') \<and> ToString (property ?b ''doi'') = Inr ''10.1000/x'' \<and>
      CHR 0x22 \<notin> set ''10.1000/x'' \<and> CHR ''&'' \<notin> set ''10.1000/x'' \<and>
      CHR 0x0D \<notin> set ''10.1000/x'' \<and> CHR 0x00 \<notin> set ''10.1000/x''" by simp
  from link_for_truthy_doi[OF ca] fa have "links (card_markup 0 ''T'' [] [] [] []) = []" by blast
  moreover from link_for_truthy_doi[OF cb, of "''10.1000/x''"] fb
  have "links (card_markup 1 ''T'' [] [] [] (link_markup ''https://doi.org/10.1000/x'' ''10.1000/x''))
      = [Target (''https://doi.org/'' @ ''10.1000/x'')]" by blast
  ultimately show ?thesis by simp
qed

text \<open>
  C2 as stated fails. A record can have a \<^verbatim>\<open>doi\<close> field and a card without a link,
  since the code asks whether the value is truthy, not whether the field is there:
  below the field holds the empty string. And the target of the link is not always
  the prefix followed by the \<^verbatim>\<open>doi\<close>, since the \<^verbatim>\<open>doi\<close> is written into the attribute as
  it is: a double quote ends the target, a character reference is resolved, and a
  carriage return becomes a line feed.
\<close>

theorem doi_field_without_link:
  \<open>has_field (JObj [(''doi'', JStr [])]) ''doi''
   \<and> and_then (createPublicationCard (JObj [(''doi'', JStr [])]) 0) (\<lambda>markup. Inr (links markup)) = Inr []
   \<and> and_then (createPublicationCard (JObj [(''doi'', JStr ''10.1/a"b'')]) 0) (\<lambda>markup. Inr (links markup))
       = Inr [Target ''https://doi.org/10.1/a'']
   \<and> and_then (createPublicationCard (JObj [(''doi'', JStr ''10.1/a&amp;b'')]) 0) (\<lambda>markup. Inr (links markup))
       = Inr [Target ''https://doi.org/10.1/a&b'']
   \<and> and_then (createPublicationCard (JObj [(''doi'', JStr (''10.1/a'' @ [CHR 0x0D] @ ''b''))]) 0)
         (\<lambda>markup. Inr (links markup))
       = Inr [Target (''https://doi.org/10.1/a'' @ [CHR 0x0A] @ ''b'')]\<close>
  by (simp add: eval_card links_def link_of_def is_alnum_def)

text \<open>
  C3. The \<^verbatim>\<open>doi\<close> enters the card twice: escaped, as the text of the link, and as it
  is, inside the \<^verbatim>\<open>href\<close> attribute. A \<^verbatim>\<open>doi\<close> with a double quote and angle brackets
  in it closes the attribute and the tag, and what follows is read as markup: for the
  \<^verbatim>\<open>doi\<close> below the card has an \<^verbatim>\<open>img\<close> element that no part of the template writes.
\<close>

theorem doi_href_not_escaped:
  \<open>and_then (createPublicationCard (JObj [(''doi'', JStr ''"><img src=x onerror=alert(1)>'')]) 0)
      (\<lambda>markup. Inr (elements markup))
     = Inr [''article'', ''h4'', ''p'', ''p'', ''a'', ''img'', ''svg'', ''path'', ''polyline'', ''line'']\<close>
  by (simp add: eval_card elements_def)

section \<open>Properties of the feed renderer\<close>

lemma try_block_no_feed:
  "no_feed outcome \<Longrightarrow>
   try_block outcome p = (show_no_publications p, None) \<or> (\<exists>e. try_block outcome p = (p, Some e))"
proof (cases outcome)
  case Rejected
  then show ?thesis by (simp add: try_block_def)
next
  case (Response ok b)
  assume nf: "no_feed outcome"
  show ?thesis
  proof (cases b)
    case Malformed
    with Response show ?thesis by (simp add: try_block_def)
  next
    case (Parsed data)
    show ?thesis
    proof (cases ok)
      case False
      with Response show ?thesis by (simp add: try_block_def)
    next
      case True
      with nf Response Parsed show ?thesis
        by (cases data) (auto simp: try_block_def split: option.splits)
    qed
  qed
qed




text \<open>
  C1. One record can put two cards into the container. The \<^verbatim>\<open>doi\<close> of the record
  below is written into the \<^verbatim>\<open>href\<close> attribute as it is (the defect of C3): its double
  quote and angle bracket close the attribute and the tag, and the rest of it is read
  as the start tag of a second card. The feed has one record; the container, displayed
  as a grid, holds two \<^verbatim>\<open>article\<close> elements.
\<close>

theorem one_record_two_articles:
  \<open>map_option (\<lambda>c. articles (innerHTML c))
     (container (loadPublications
        (Response True (Parsed (JObj [(''citingPapers'',
           JArr [JObj [(''doi'', JStr ''"><article class="publication-card">'')]])])))
        \<lparr>container = Some \<lparr>display = [], innerHTML = []\<rparr>, noPublicationsMsg = None,
          requests = [], console = [], aos = False, aos_refreshes = 0\<rparr>))
     = Some [''article'', ''article'']
   \<and> map_option display
     (container (loadPublications
        (Response True (Parsed (JObj [(''citingPapers'',
           JArr [JObj [(''doi'', JStr ''"><article class="publication-card">'')]])])))
        \<lparr>container = Some \<lparr>display = [], innerHTML = []\<rparr>, noPublicationsMsg = None,
          requests = [], console = [], aos = False, aos_refreshes = 0\<rparr>))
     = Some ''grid''\<close>
  by (simp add: loadPublications_def try_block_def show_grid_def refresh_aos_def set_display_def
        set_innerHTML_def articles_def elements_def eval_card)

text \<open>
  C4. On a page that has the card container, every outcome without a feed (the fetch
  rejects, the status is not a success, the body does not parse, the response object
  has no \<^verbatim>\<open>citingPapers\<close> field, the list is empty) leaves the two regions in one and
  the same state: the container with \<^verbatim>\<open>display\<close> none and the message, when the page
  has one, with \<^verbatim>\<open>display\<close> block, everything else about them as it was. Beyond the
  two regions the routine has changed nothing but the list of requests and the
  console, where the error goes.
\<close>

theorem no_feed_empty_state:
  assumes "container p = Some c"
    and "no_feed outcome"
  shows "container (loadPublications outcome p) = Some (c\<lparr>display := ''none''\<rparr>)
       \<and> noPublicationsMsg (loadPublications outcome p) = set_display ''block'' (noPublicationsMsg p)
       \<and> (noPublicationsMsg p = Some m \<longrightarrow>
            noPublicationsMsg (loadPublications outcome p) = Some (m\<lparr>display := ''block''\<rparr>)
            \<and> empty_state (loadPublications outcome p))
       \<and> loadPublications outcome p =
           p\<lparr>container := Some (c\<lparr>display := ''none''\<rparr>),
             noPublicationsMsg := set_display ''block'' (noPublicationsMsg p),
             requests := requests p @ [''data/publications.json''],
             console := console (loadPublications outcome p)\<rparr>"
  using try_block_no_feed[OF assms(2), of "p\<lparr>requests := requests p @ [''data/publications.json'']\<rparr>"]
    assms(1)
  by (auto simp: loadPublications_def show_no_publications_def set_display_def empty_state_def)

theorem no_feed_empty_state_witness:
  "container (loadPublications (Response False (Parsed (JObj [])))
      \<lparr>container = Some \<lparr>display = ''grid'', innerHTML = ''old''\<rparr>,
        noPublicationsMsg = Some \<lparr>display = ''none'', innerHTML = ''No publications yet''\<rparr>,
        requests = [], console = [], aos = True, aos_refreshes = 0\<rparr>)
     = Some \<lparr>display = ''none'', innerHTML = ''old''\<rparr>
   \<and> noPublicationsMsg (loadPublications (Response False (Parsed (JObj [])))
      \<lparr>container = Some \<lparr>display = ''grid'', innerHTML = ''old''\<rparr>,
        noPublicationsMsg = Some \<lparr>display = ''none'', innerHTML = ''No publications yet''\<rparr>,
        requests = [], console = [], aos = True, aos_refreshes = 0\<rparr>)
     = Some \<lparr>display = ''block'', innerHTML = ''No publications yet''\<rparr>
   \<and> empty_state (loadPublications (Response False (Parsed (JObj [])))
      \<lparr>container = Some \<lparr>display = ''grid'', innerHTML = ''old''\<rparr>,
        noPublicationsMsg = Some \<lparr>display = ''none'', innerHTML = ''No publications yet''\<rparr>,
        requests = [], console = [], aos = True, aos_refreshes = 0\<rparr>)"
proof -
  let ?p = "\<lparr>container = Some \<lparr>display = ''grid'', innerHTML = ''old''\<rparr>,
        noPublicationsMsg = Some \<lparr>display = ''none'', innerHTML = ''No publications yet''\<rparr>,
        requests = [], console = [], aos = True, aos_refreshes = 0\<rparr>"
  have h1: "container ?p = Some \<lparr>display = ''grid'', innerHTML = ''old''\<rparr>" by simp
  have h2: "noPublicationsMsg ?p = Some \<lparr>display = ''none'', innerHTML = ''No publications yet''\<rparr>" by simp
  have h3: "no_feed (Response False (Parsed (JObj [])))" by simp
  from no_feed_empty_state[OF h1 h3, of "\<lparr>display = ''none'', innerHTML = ''No publications yet''\<rparr>"] h2
  show ?thesis by (simp add: set_display_def)
qed



text \<open>
  C7. On a page without the card container the routine returns at once: the page,
  the message element included, is what it was, and no request has been issued.
\<close>

theorem no_container_no_action: "container p = None \<Longrightarrow> loadPublications outcome p = p"
  by (simp add: loadPublications_def)

theorem no_container_no_action_witness:
  "loadPublications (Response True (Parsed (JObj [(''citingPapers'', JArr [JObj []])])))
      \<lparr>container = None,
        noPublicationsMsg = Some \<lparr>display = ''none'', innerHTML = ''No publications yet''\<rparr>,
        requests = [], console = [], aos = True, aos_refreshes = 0\<rparr>
   = \<lparr>container = None,
        noPublicationsMsg = Some \<lparr>display = ''none'', innerHTML = ''No publications yet''\<rparr>,
        requests = [], console = [], aos = True, aos_refreshes = 0\<rparr>"
proof -
  have h: "container \<lparr>container = None,
        noPublicationsMsg = Some \<lparr>display = ''none'', innerHTML = ''No publications yet''\<rparr>,
        requests = [], console = [], aos = True, aos_refreshes = 0\<rparr> = None" by simp
  from no_container_no_action[OF h] show ?thesis .
qed

section \<open>Properties of the clipboard copy\<close>

lemma fold_max_ge: "x \<in> set xs \<Longrightarrow> x \<le> fold max xs (a::nat)"
proof -
  assume "x \<in> set xs"
  then have "x \<le> Max (set (a # xs))" by (intro Max_ge) auto
  then show ?thesis by (simp only: Max.set_eq_fold)
qed

lemma fresh_id_above: "n \<in> set (children d) \<Longrightarrow> node_id n < fresh_id d"
  using fold_max_ge[of "node_id n" "map node_id (children d) @ map snd (timers d)" 0]
  by (simp add: fresh_id_def less_Suc_eq_le)

lemma remove_existing_toast_subset: "set (remove_existing_toast ns) \<subseteq> set ns"
  by (induction ns) auto

lemma remove_existing_toast_append:
  "\<not> is_toast n \<Longrightarrow> remove_existing_toast (ns @ [n]) = remove_existing_toast ns @ [n]"
  by (induction ns) auto

lemma showToast_children:
  "children (showToast message d) =
     remove_existing_toast (children d) @
       [Node (fresh_id (d\<lparr>children := remove_existing_toast (children d)\<rparr>)) ''div'' [''toast''] message]"
  by (simp add: showToast_def Let_def appendChild_def createElement_def)

lemma showToast_clipboard: "clipboard (showToast message d) = clipboard d"
  by (simp add: showToast_def Let_def appendChild_def)

lemma fallback_children:
  assumes "children d1 = children d @ [Node (fresh_id d) ''textarea'' [] citation]"
  shows "\<exists>i. removeChild (Node (fresh_id d) ''textarea'' [] citation) (showToast message d1) =
           Inr ((showToast message d1)\<lparr>children := remove_existing_toast (children d) @ [Node i ''div'' [''toast''] message]\<rparr>)"
proof -
  let ?ta = "Node (fresh_id d) ''textarea'' [] citation"
  let ?rest = "remove_existing_toast (children d)"
  let ?d2 = "d1\<lparr>children := remove_existing_toast (children d1)\<rparr>"
  let ?toast = "Node (fresh_id ?d2) ''div'' [''toast''] message"
  have nt: "\<not> is_toast ?ta" by (simp add: is_toast_def)
  have c2: "children ?d2 = ?rest @ [?ta]"
    using assms remove_existing_toast_append[OF nt] by simp
  have ch: "children (showToast message d1) = ?rest @ [?ta, ?toast]"
    using showToast_children[of message d1] assms remove_existing_toast_append[OF nt, of "children d"] by simp
  have "?ta \<in> set (children ?d2)" using c2 by simp
  from fresh_id_above[OF this] have lt: "fresh_id d < fresh_id ?d2" by simp
  have old: "\<And>n. n \<in> set ?rest \<Longrightarrow> node_id n \<noteq> fresh_id d"
  proof -
    fix n assume "n \<in> set ?rest"
    then have "n \<in> set (children d)" using remove_existing_toast_subset by blast
    from fresh_id_above[OF this] show "node_id n \<noteq> fresh_id d" by simp
  qed
  then have f: "filter (\<lambda>m. node_id m \<noteq> fresh_id d) ?rest = ?rest"
    by (simp add: filter_id_conv)
  have "removeChild ?ta (showToast message d1) =
          Inr ((showToast message d1)\<lparr>children := ?rest @ [?toast]\<rparr>)"
    using ch f lt by (simp add: removeChild_def)
  then show ?thesis by blast
qed

lemma copyToClipboard_fallback:
  "copyToClipboard citation WriteFails e d =
     removeChild (Node (fresh_id d) ''textarea'' [] citation)
       (showToast (if e = ExecThrows then ''Failed to copy citation'' else ''Citation copied to clipboard!'')
          ((appendChild (Node (fresh_id d) ''textarea'' [] citation) d)
             \<lparr>clipboard := (if e = ExecReturns True then citation else clipboard d)\<rparr>))"
proof (cases e)
  case (ExecReturns copied)
  then show ?thesis
    by (cases copied) (simp_all add: copyToClipboard_def Let_def createElement_def appendChild_def)
next
  case ExecThrows
  then show ?thesis
    by (simp add: copyToClipboard_def Let_def createElement_def appendChild_def)
qed

lemma copy_result:
  "\<exists>d' i. copyToClipboard citation w e d = Inr d' \<and>
      children d' = remove_existing_toast (children d) @
         [Node i ''div'' [''toast'']
            (if w = Written \<or> e \<noteq> ExecThrows then ''Citation copied to clipboard!''
             else ''Failed to copy citation'')] \<and>
      clipboard d' = (if w = Written \<or> e = ExecReturns True then citation else clipboard d)"
proof (cases w)
  case Written
  then show ?thesis
    by (simp add: copyToClipboard_def showToast_children showToast_clipboard)
next
  case WriteFails
  let ?msg = "if e = ExecThrows then ''Failed to copy citation'' else ''Citation copied to clipboard!''"
  let ?d1 = "(appendChild (Node (fresh_id d) ''textarea'' [] citation) d)
             \<lparr>clipboard := (if e = ExecReturns True then citation else clipboard d)\<rparr>"
  have "children ?d1 = children d @ [Node (fresh_id d) ''textarea'' [] citation]"
    by (simp add: appendChild_def)
  from fallback_children[OF this, of ?msg] obtain i where
    "removeChild (Node (fresh_id d) ''textarea'' [] citation) (showToast ?msg ?d1) =
       Inr ((showToast ?msg ?d1)\<lparr>children := remove_existing_toast (children d) @ [Node i ''div'' [''toast''] ?msg]\<rparr>)"
    by blast
  then have r: "copyToClipboard citation w e d =
       Inr ((showToast ?msg ?d1)\<lparr>children := remove_existing_toast (children d) @ [Node i ''div'' [''toast''] ?msg]\<rparr>)"
    using WriteFails by (simp only: copyToClipboard_fallback)
  have cb: "clipboard (showToast ?msg ?d1) = (if e = ExecReturns True then citation else clipboard d)"
    by (simp add: showToast_clipboard)
  show ?thesis
    using WriteFails r cb by simp
qed

text \<open>
  Whatever the two copy attempts do, the promise of \<^verbatim>\<open>copyToClipboard\<close> is fulfilled, and
  the newest notification on the page is the confirmation or the failure notice: the
  failure notice when the write failed and the copy command threw, the confirmation
  in every other case. The clipboard holds the citation when the write succeeded or
  the copy command reported success.
\<close>

lemma copy_ends_in_notification:
  "\<exists>d'. copyToClipboard citation w e d = Inr d' \<and>
      notifications d' \<noteq> [] \<and>
      last (notifications d') =
        (if w = Written \<or> e \<noteq> ExecThrows then ''Citation copied to clipboard!''
         else ''Failed to copy citation'') \<and>
      clipboard d' = (if w = Written \<or> e = ExecReturns True then citation else clipboard d)"
proof -
  from copy_result[of citation w e d] obtain d' i where
    r: "copyToClipboard citation w e d = Inr d'"
    and c: "children d' = remove_existing_toast (children d) @
         [Node i ''div'' [''toast'']
            (if w = Written \<or> e \<noteq> ExecThrows then ''Citation copied to clipboard!''
             else ''Failed to copy citation'')]"
    and cb: "clipboard d' = (if w = Written \<or> e = ExecReturns True then citation else clipboard d)"
    by blast
  from c have "notifications d' \<noteq> [] \<and> last (notifications d') =
        (if w = Written \<or> e \<noteq> ExecThrows then ''Citation copied to clipboard!''
         else ''Failed to copy citation'')"
    by (simp add: notifications_def is_toast_def)
  with r cb show ?thesis by blast
qed

text \<open>
  C6. When the clipboard write fails and the fallback copy fails too, by
  \<^verbatim>\<open>document.execCommand('copy')\<close> returning \<^verbatim>\<open>false\<close>, the page shows the confirmation
  and not the failure notice, although nothing was copied: the script discards the
  result of the command (line 224), and only an exception reaches the failure notice.
\<close>

theorem failed_fallback_shows_confirmation:
  "copyToClipboard ''@article{x}'' WriteFails (ExecReturns False)
      \<lparr>children = [], timers = [], clipboard = ''before''\<rparr>
   = Inr \<lparr>children = [Node 2 ''div'' [''toast''] ''Citation copied to clipboard!''],
          timers = [(10, 2), (3000, 2)], clipboard = ''before''\<rparr>"
  by (simp add: copyToClipboard_def showToast_def createElement_def appendChild_def removeChild_def
        fresh_id_def is_toast_def Let_def)

text \<open>
  C10. Every invocation leaves the children of the body as they were, less the toast
  that was showing and plus the new toast: the text field of the fallback path is gone
  again, after a copy command that returned as after one that threw, and the
  page has no more text fields than before.
\<close>

theorem fallback_leaves_no_text_field:
  "\<exists>d' toast. copyToClipboard citation w e d = Inr d' \<and>
      children d' = remove_existing_toast (children d) @ [toast] \<and>
      tag toast = ''div'' \<and> is_toast toast \<and>
      text_fields d' = filter (\<lambda>n. tag n = ''textarea'') (remove_existing_toast (children d)) \<and>
      length (text_fields d') \<le> length (text_fields d)"
proof -
  from copy_result[of citation w e d] obtain d' i where
    r: "copyToClipboard citation w e d = Inr d'"
    and c: "children d' = remove_existing_toast (children d) @
         [Node i ''div'' [''toast'']
            (if w = Written \<or> e \<noteq> ExecThrows then ''Citation copied to clipboard!''
             else ''Failed to copy citation'')]"
    by blast
  have len: "\<And>ns. length (filter (\<lambda>n. tag n = ''textarea'') (remove_existing_toast ns))
       \<le> length (filter (\<lambda>n. tag n = ''textarea'') ns)"
  proof -
    fix ns show "length (filter (\<lambda>n. tag n = ''textarea'') (remove_existing_toast ns))
       \<le> length (filter (\<lambda>n. tag n = ''textarea'') ns)"
      by (induction ns) auto
  qed
  from c len[of "children d"] have "text_fields d' = filter (\<lambda>n. tag n = ''textarea'') (remove_existing_toast (children d))
     \<and> length (text_fields d') \<le> length (text_fields d)"
    by (simp add: text_fields_def)
  with r c show ?thesis by (simp add: is_toast_def text_fields_def)
qed

section \<open>Properties of the header scroll effect\<close>

lemma updateHeader_frames: "frames (updateHeader s) = frames s \<and> frame_requests (updateHeader s) = frame_requests s"
  by (simp add: updateHeader_def split: option.splits)

lemma handle_coalesced: "coalesced s \<Longrightarrow> coalesced (handle s e)"
proof (cases e)
  case (Scroll y)
  assume "coalesced s"
  with Scroll show ?thesis
    by (auto simp: coalesced_def on_scroll_def Let_def)
next
  case AnimationFrame
  assume c: "coalesced s"
  then have "frame_requests s = 0 \<or> frame_requests s = 1"
    by (auto simp: coalesced_def)
  with c AnimationFrame show ?thesis
    by (auto simp: coalesced_def updateHeader_frames)
qed

lemma run_coalesced: "coalesced s \<Longrightarrow> coalesced (run s es)"
  unfolding run_def by (induction es arbitrary: s) (simp_all add: handle_coalesced)

lemma init_coalesced: "coalesced (initHeaderScroll h y)"
  by (simp add: coalesced_def initHeaderScroll_def)

lemma flag_cleared:
  assumes "coalesced s" "ticking s" "\<not> ticking (handle s e)"
  shows "e = AnimationFrame \<and> frame_requests s = 1 \<and> header s \<noteq> None"
proof (cases e)
  case (Scroll y)
  with assms show ?thesis by (simp add: on_scroll_def Let_def)
next
  case AnimationFrame
  from assms(1) have "frame_requests s = 0 \<or> frame_requests s = 1"
    by (auto simp: coalesced_def)
  with assms(2,3) AnimationFrame show ?thesis
    by (auto simp: updateHeader_def split: option.splits)
qed

text \<open>
  C8. After any sequence of scroll events and animation frames, no animation frame
  has started \<^verbatim>\<open>updateHeader\<close> more than once and at most one callback waits, which it
  does only while the flag is set; a scroll event that finds the flag set requests no
  further callback; and the flag is cleared by no scroll event, only by an animation
  frame in which the waiting callback runs.
\<close>

theorem header_update_coalesced:
  "list_all (\<lambda>n. n \<le> 1) (frames (run (initHeaderScroll h y0) es))
   \<and> frame_requests (run (initHeaderScroll h y0) es) \<le> 1
   \<and> (frame_requests (run (initHeaderScroll h y0) es) = 1 \<longrightarrow> ticking (run (initHeaderScroll h y0) es))
   \<and> (ticking (run (initHeaderScroll h y0) es) \<longrightarrow>
        frame_requests (handle (run (initHeaderScroll h y0) es) (Scroll y)) =
        frame_requests (run (initHeaderScroll h y0) es))
   \<and> (ticking (run (initHeaderScroll h y0) es) \<and> \<not> ticking (handle (run (initHeaderScroll h y0) es) e) \<longrightarrow>
        e = AnimationFrame \<and> frame_requests (run (initHeaderScroll h y0) es) = 1
        \<and> header (run (initHeaderScroll h y0) es) \<noteq> None)"
proof -
  let ?s = "run (initHeaderScroll h y0) es"
  have c: "coalesced ?s" by (rule run_coalesced[OF init_coalesced])
  have "ticking ?s \<longrightarrow> frame_requests (handle ?s (Scroll y)) = frame_requests ?s"
    by (simp add: on_scroll_def Let_def)
  moreover have "ticking ?s \<and> \<not> ticking (handle ?s e) \<longrightarrow>
      e = AnimationFrame \<and> frame_requests ?s = 1 \<and> header ?s \<noteq> None"
    using flag_cleared[OF c] by blast
  ultimately show ?thesis using c by (simp add: coalesced_def)
qed

theorem header_update_coalesced_witness:
  "frames (run (initHeaderScroll (Some False) 0) [Scroll 50, Scroll 150, AnimationFrame, Scroll 20]) = [1]
   \<and> ticking (run (initHeaderScroll (Some False) 0) [Scroll 50, Scroll 150, AnimationFrame, Scroll 20])
   \<and> frame_requests (run (initHeaderScroll (Some False) 0) [Scroll 50, Scroll 150, AnimationFrame, Scroll 20]) = 1
   \<and> frame_requests (handle (run (initHeaderScroll (Some False) 0) [Scroll 50, Scroll 150, AnimationFrame, Scroll 20]) (Scroll 300)) = 1
   \<and> \<not> ticking (handle (run (initHeaderScroll (Some False) 0) [Scroll 50, Scroll 150, AnimationFrame, Scroll 20]) AnimationFrame)
   \<and> header (run (initHeaderScroll (Some False) 0) [Scroll 50, Scroll 150, AnimationFrame, Scroll 20]) \<noteq> None"
proof -
  let ?s = "run (initHeaderScroll (Some False) 0) [Scroll 50, Scroll 150, AnimationFrame, Scroll 20]"
  have t: "ticking ?s"
    by (simp add: run_def initHeaderScroll_def on_scroll_def updateHeader_def)
  have f: "frames ?s = [1]"
    by (simp add: run_def initHeaderScroll_def on_scroll_def updateHeader_def)
  have n: "\<not> ticking (handle ?s AnimationFrame)"
    by (simp add: run_def initHeaderScroll_def on_scroll_def updateHeader_def)
  from header_update_coalesced[of "Some False" 0 "[Scroll 50, Scroll 150, AnimationFrame, Scroll 20]" 300 AnimationFrame] t n
  have "frame_requests (handle ?s (Scroll 300)) = frame_requests ?s
      \<and> frame_requests ?s = 1 \<and> header ?s \<noteq> None"
    by blast
  with t f n show ?thesis by simp
qed

end
